theory Spec2Isabelle
  imports Main "HOL-Library.Word"
begin

section \<open>Fallback block processing of a shard node (libNode/FallbackBlockProcessing.cpp)\<close>

text \<open>
  The three member functions of \<open>Node\<close> defined in the file are embedded:
  \<open>UpdateDSCommittee\<close>, \<open>VerifyFallbackBlockCoSignature\<close> and \<open>ProcessFallbackBlock\<close>.
  The classes \<open>PubKey\<close>, \<open>Peer\<close>, \<open>Signature\<close> and the state hash are declared in other
  files; the code here only copies and compares them, so they are type variables
  (\<open>'k\<close>, \<open>'p\<close>, \<open>'s\<close>, \<open>'h\<close>).
\<close>

subsection \<open>Data\<close>

text \<open>
  A shard is a \<open>std::vector\<close> of tuples. The file reads the components
  \<open>SHARD_NODE_PUBKEY\<close> and \<open>SHARD_NODE_PEER\<close> and builds a tuple of three components in
  \<open>ProcessFallbackBlock\<close>; the third component (type \<open>'r\<close>) is never read.
\<close>

type_synonym ('k, 'p, 'r) ShardNode = "'k \<times> 'p \<times> 'r"

definition SHARD_NODE_PUBKEY :: "('k, 'p, 'r) ShardNode \<Rightarrow> 'k" where
  "SHARD_NODE_PUBKEY shardNode = fst shardNode"

definition SHARD_NODE_PEER :: "('k, 'p, 'r) ShardNode \<Rightarrow> 'p" where
  "SHARD_NODE_PEER shardNode = fst (snd shardNode)"

text \<open>The enumerations \<open>NodeState\<close> and \<open>Action\<close> are declared in Node.h; the file names one
  enumerator of each.\<close>

datatype NodeState = WAITING_FALLBACKBLOCK | OtherNodeState nat

datatype Action = PROCESS_FALLBACKBLOCK | OtherAction nat

record ('k, 'p, 'h) FallbackBlockHeader =
  FallbackEpochNo :: "64 word"
  ShardId :: "32 word"
  LeaderConsensusId :: "32 word"
  LeaderPubKey :: 'k
  LeaderNetworkInfo :: 'p
  StateRootHash :: 'h

record ('k, 'p, 'h, 's) FallbackBlock =
  Header :: "('k, 'p, 'h) FallbackBlockHeader"
  CS1 :: 's
  B1 :: "bool list"
  CS2 :: 's
  B2 :: "bool list"

text \<open>
  The state of the node that the file reads or writes: the shard directory
  \<open>m_mediator.m_ds->m_shards\<close>, the committee \<open>*m_mediator.m_DSCommittee\<close> (a deque of
  pairs), the epoch number, the consensus counters, the processed transactions per epoch,
  \<open>m_state\<close>, and the state root of the account store. \<open>m_other\<close> stands for the members
  that only functions defined in other files touch.
\<close>

record ('k, 'p, 'r, 'h, 't, 'z) Node =
  m_shards :: "('k, 'p, 'r) ShardNode list list"
  m_DSCommittee :: "('k \<times> 'p) list"
  m_currentEpochNum :: "64 word"
  m_consensusID :: "32 word"
  m_consensusLeaderID :: "32 word"
  m_processedTransactions :: "64 word \<rightharpoonup> 't"
  m_state :: NodeState
  AccountStore_StateRootHash :: 'h
  m_other :: 'z

text \<open>
  \<open>operator[]\<close> of \<open>std::vector\<close> outside the vector is undefined behaviour, and
  \<open>vector::at\<close> outside the vector throws \<open>std::out_of_range\<close>. Both are results of the
  model.
\<close>

datatype error = UndefinedBehaviour | out_of_range

subsection \<open>UpdateDSCommittee\<close>

text \<open>
  The loop over \<open>m_shards[shard_id]\<close>: \<open>push_front\<close> of the leader for a node whose key and
  peer both equal the leader's, \<open>push_back\<close> of the node's key and peer otherwise. The
  last argument is the committee built so far.
\<close>

fun UpdateDSCommittee_loop ::
  "('k, 'p, 'r) ShardNode list \<Rightarrow> 'k \<Rightarrow> 'p \<Rightarrow> ('k \<times> 'p) list \<Rightarrow> ('k \<times> 'p) list" where
  "UpdateDSCommittee_loop [] leaderPubKey leaderNetworkInfo committee = committee"
| "UpdateDSCommittee_loop (shardNode # rest) leaderPubKey leaderNetworkInfo committee =
     (if SHARD_NODE_PUBKEY shardNode = leaderPubKey
         \<and> SHARD_NODE_PEER shardNode = leaderNetworkInfo
      then UpdateDSCommittee_loop rest leaderPubKey leaderNetworkInfo
             ((leaderPubKey, leaderNetworkInfo) # committee)
      else UpdateDSCommittee_loop rest leaderPubKey leaderNetworkInfo
             (committee @ [(SHARD_NODE_PUBKEY shardNode, SHARD_NODE_PEER shardNode)]))"

text \<open>The committee is cleared, then rebuilt from the shard. The mutex held meanwhile has
  no effect on a single thread.\<close>

definition UpdateDSCommittee ::
  "32 word \<Rightarrow> 'k \<Rightarrow> 'p \<Rightarrow> ('k, 'p, 'r, 'h, 't, 'z) Node
     \<Rightarrow> error + ('k, 'p, 'r, 'h, 't, 'z) Node" where
  "UpdateDSCommittee shard_id leaderPubKey leaderNetworkInfo st =
     (if unat shard_id < length (m_shards st)
      then Inr (st\<lparr>m_DSCommittee :=
                    UpdateDSCommittee_loop (m_shards st ! unat shard_id)
                      leaderPubKey leaderNetworkInfo []\<rparr>)
      else Inl UndefinedBehaviour)"

subsection \<open>Collaborators defined in other files\<close>

text \<open>
  The file calls functions and reads constants that other files of the repository define.
  They are parameters of the model, one field each, named as in the code:
  \<open>ConsensusCommon::NumForConsensus\<close>, \<open>MultiSig::AggregatePubKeys\<close> (\<open>None\<close> is the
  null pointer), the three serialisation steps that build the signed message (destination,
  offset and value in, destination out), \<open>FallbackBlockHeader::SIZE\<close>, \<open>BLOCK_SIG_SIZE\<close>,
  \<open>Schnorr::Verify\<close>, \<open>Messenger::GetNodeFallbackBlock\<close> (\<open>None\<close> is the result false),
  \<open>Node::CheckState\<close>, \<open>LOOKUP_NODE_MODE\<close>, and the four clean-up procedures, which are
  arbitrary functions on the state of the node.
\<close>

record ('k, 'p, 'r, 'h, 's, 't, 'z) Externals =
  NumForConsensus :: "nat \<Rightarrow> nat"
  AggregatePubKeys :: "'k list \<Rightarrow> 'k option"
  Header_Serialize :: "('k, 'p, 'h) FallbackBlockHeader \<Rightarrow> 8 word list \<Rightarrow> nat \<Rightarrow> 8 word list"
  Signature_Serialize :: "'s \<Rightarrow> 8 word list \<Rightarrow> nat \<Rightarrow> 8 word list"
  SetBitVector :: "8 word list \<Rightarrow> nat \<Rightarrow> bool list \<Rightarrow> 8 word list"
  FallbackBlockHeader_SIZE :: nat
  BLOCK_SIG_SIZE :: nat
  Schnorr_Verify :: "8 word list \<Rightarrow> nat \<Rightarrow> nat \<Rightarrow> 's \<Rightarrow> 'k \<Rightarrow> bool"
  GetNodeFallbackBlock :: "8 word list \<Rightarrow> nat \<Rightarrow> ('k, 'p, 'h, 's) FallbackBlock option"
  CheckState :: "('k, 'p, 'r, 'h, 't, 'z) Node \<Rightarrow> Action \<Rightarrow> bool"
  LOOKUP_NODE_MODE :: bool
  CleanCreatedTransaction :: "('k, 'p, 'r, 'h, 't, 'z) Node \<Rightarrow> ('k, 'p, 'r, 'h, 't, 'z) Node"
  CleanMicroblockConsensusBuffer ::
    "('k, 'p, 'r, 'h, 't, 'z) Node \<Rightarrow> ('k, 'p, 'r, 'h, 't, 'z) Node"
  AccountStore_InitTemp :: "('k, 'p, 'r, 'h, 't, 'z) Node \<Rightarrow> ('k, 'p, 'r, 'h, 't, 'z) Node"
  InitiatePoW :: "('k, 'p, 'r, 'h, 't, 'z) Node \<Rightarrow> ('k, 'p, 'r, 'h, 't, 'z) Node"

text \<open>
  What a run does besides changing the state and returning: the waits and broadcasts on
  condition variables (named by the member of \<open>Node\<close>), the calls of the two cryptographic
  primitives, and the functions started detached. A run returns them in order.
\<close>

datatype 'k Event =
    WaitFor string
  | NotifyAll string
  | AggregatePubKeys_called "'k list"
  | Schnorr_Verify_called 'k
  | Detached string

subsection \<open>VerifyFallbackBlockCoSignature\<close>

text \<open>
  The loop over the shard that collects the keys of the members flagged in \<open>B2\<close>.
  \<open>index\<close> and \<open>count\<close> are the counters of the code (unsigned, never decremented; a shard
  has far fewer than \<open>2 ^ 32\<close> members, so they are natural numbers here), \<open>keys\<close> the
  vector built by \<open>emplace_back\<close>. \<open>B2.at(index)\<close> throws outside the bitmap.
\<close>

fun VerifyFallbackBlockCoSignature_loop ::
  "('k, 'p, 'r) ShardNode list \<Rightarrow> bool list \<Rightarrow> nat \<Rightarrow> nat \<Rightarrow> 'k list
     \<Rightarrow> error + (nat \<times> 'k list)" where
  "VerifyFallbackBlockCoSignature_loop [] B2v index count keys = Inr (count, keys)"
| "VerifyFallbackBlockCoSignature_loop (shardNode # rest) B2v index count keys =
     (if index < length B2v
      then (if B2v ! index
            then VerifyFallbackBlockCoSignature_loop rest B2v (index + 1) (count + 1)
                   (keys @ [SHARD_NODE_PUBKEY shardNode])
            else VerifyFallbackBlockCoSignature_loop rest B2v (index + 1) count keys)
      else Inl out_of_range)"

definition VerifyFallbackBlockCoSignature ::
  "('k, 'p, 'r, 'h, 's, 't, 'z) Externals \<Rightarrow> ('k, 'p, 'h, 's) FallbackBlock
     \<Rightarrow> ('k, 'p, 'r, 'h, 't, 'z) Node \<Rightarrow> error + (bool \<times> 'k Event list)" where
  "VerifyFallbackBlockCoSignature ext fallbackblock st =
     (let shard_id = ShardId (Header fallbackblock);
          B2v = B2 fallbackblock
      in if \<not> unat shard_id < length (m_shards st) then Inl UndefinedBehaviour
         else if length (m_shards st ! unat shard_id) \<noteq> length B2v then Inr (False, [])
         else
           case VerifyFallbackBlockCoSignature_loop (m_shards st ! unat shard_id) B2v 0 0 [] of
             Inl e \<Rightarrow> Inl e
           | Inr (count, keys) \<Rightarrow>
               if count \<noteq> NumForConsensus ext (length B2v) then Inr (False, [])
               else
                 (case AggregatePubKeys ext keys of
                    None \<Rightarrow> Inr (False, [AggregatePubKeys_called keys])
                  | Some aggregatedKey \<Rightarrow>
                      let message =
                            SetBitVector ext
                              (Signature_Serialize ext (CS1 fallbackblock)
                                 (Header_Serialize ext (Header fallbackblock) [] 0)
                                 (FallbackBlockHeader_SIZE ext))
                              (FallbackBlockHeader_SIZE ext + BLOCK_SIG_SIZE ext)
                              (B1 fallbackblock)
                      in if \<not> Schnorr_Verify ext message 0 (length message)
                                 (CS2 fallbackblock) aggregatedKey
                         then Inr (False, [AggregatePubKeys_called keys,
                                           Schnorr_Verify_called aggregatedKey])
                         else Inr (True, [AggregatePubKeys_called keys,
                                          Schnorr_Verify_called aggregatedKey])))"

subsection \<open>ProcessFallbackBlock\<close>

text \<open>
  \<open>cv.wait_for(lock, time, pred)\<close> evaluates \<open>pred\<close>; while it is false the thread sleeps
  and evaluates it again when woken, and at the expiry of the time it returns what \<open>pred\<close>
  says then. \<open>m_state\<close> is written by other threads: \<open>s\<close> is the value the first evaluation
  reads, \<open>later\<close> the values the following evaluations read, the last of them at expiry.
  The list is finite because the wait is bounded by \<open>FALLBACK_EXTRA_TIME\<close>.
\<close>

fun wait_for :: "'a \<Rightarrow> 'a list \<Rightarrow> ('a \<Rightarrow> bool) \<Rightarrow> bool" where
  "wait_for s [] pred = pred s"
| "wait_for s (s' # later) pred = (if pred s then True else wait_for s' later pred)"

text \<open>
  The handler returns its boolean, the state of the node, and the events of the run.
  The sender \<open>from\<close> is unused in the code and left out. Logging is left out.
\<close>

definition ProcessFallbackBlock ::
  "('k, 'p, 'r, 'h, 's, 't, 'z) Externals \<Rightarrow> NodeState list \<Rightarrow> 8 word list \<Rightarrow> nat
     \<Rightarrow> ('k, 'p, 'r, 'h, 't, 'z) Node
     \<Rightarrow> error + (bool \<times> ('k, 'p, 'r, 'h, 't, 'z) Node \<times> 'k Event list)" where
  "ProcessFallbackBlock ext later message cur_offset st =
     (let waits = \<not> CheckState ext st PROCESS_FALLBACKBLOCK;
          ev0 = (if waits then [WaitFor ''cv_fallbackBlock''] else [])
      in
      if waits \<and> \<not> wait_for (m_state st) later (\<lambda>s. s = WAITING_FALLBACKBLOCK)
      then Inr (False, st, ev0)
      else
        case GetNodeFallbackBlock ext message cur_offset of
          None \<Rightarrow> Inr (False, st, ev0)
        | Some fallbackblock \<Rightarrow>
            if FallbackEpochNo (Header fallbackblock) \<noteq> m_currentEpochNum st
            then Inr (False, st, ev0)
            else
              let shard_id = ShardId (Header fallbackblock) in
              if unat shard_id \<ge> length (m_shards st) then Inr (False, st, ev0)
              else
                let leaderConsensusId = LeaderConsensusId (Header fallbackblock) in
                if unat leaderConsensusId \<ge> length (m_shards st ! unat shard_id)
                then Inr (False, st, ev0)
                else
                  let leaderPubKey = LeaderPubKey (Header fallbackblock);
                      leaderNetworkInfo = LeaderNetworkInfo (Header fallbackblock)
                  in
                  if find (\<lambda>item. leaderPubKey = SHARD_NODE_PUBKEY item
                                   \<and> leaderNetworkInfo = SHARD_NODE_PEER item)
                       (m_shards st ! unat shard_id) = None
                  then Inr (False, st, ev0)
                  else if AccountStore_StateRootHash st
                            \<noteq> StateRootHash (Header fallbackblock)
                  then Inr (False, st, ev0)
                  else
                    (case VerifyFallbackBlockCoSignature ext fallbackblock st of
                       Inl e \<Rightarrow> Inl e
                     | Inr (verified, ev1) \<Rightarrow>
                         if \<not> verified then Inr (False, st, ev0 @ ev1)
                         else
                           (case UpdateDSCommittee shard_id leaderPubKey leaderNetworkInfo st of
                              Inl e \<Rightarrow> Inl e
                            | Inr st1 \<Rightarrow>
                                let st2 =
                                  (if \<not> LOOKUP_NODE_MODE ext
                                   then InitiatePoW ext
                                          (AccountStore_InitTemp ext
                                            (CleanMicroblockConsensusBuffer ext
                                              (CleanCreatedTransaction ext
                                                (st1\<lparr>m_processedTransactions :=
                                                   (m_processedTransactions st1)
                                                     (m_currentEpochNum st1 := None)\<rparr>))))
                                   else st1\<lparr>m_consensusID := 0, m_consensusLeaderID := 0\<rparr>)
                                in Inr (True, st2,
                                        ev0 @ ev1 @ [NotifyAll ''cv_fallbackBlock'',
                                                     Detached ''ScheduleFallbackTimeout'']))))"

subsection \<open>Notions of the specification\<close>

text \<open>The identity of a shard member: its public key and its network address.\<close>

definition member_of :: "('k, 'p, 'r) ShardNode \<Rightarrow> 'k \<times> 'p" where
  "member_of shardNode = (SHARD_NODE_PUBKEY shardNode, SHARD_NODE_PEER shardNode)"

text \<open>The number of signers a bitmap flags, and the keys of the members of a shard that a
  bitmap flags, in the order of the shard.\<close>

definition flagged :: "bool list \<Rightarrow> nat" where
  "flagged bitmap = length (filter (\<lambda>b. b) bitmap)"

definition flagged_keys :: "('k, 'p, 'r) ShardNode list \<Rightarrow> bool list \<Rightarrow> 'k list" where
  "flagged_keys shard bitmap =
     map (\<lambda>(shardNode, b). SHARD_NODE_PUBKEY shardNode) (filter snd (zip shard bitmap))"

text \<open>
  The checks of steps 1 to 8 of the handler, in the words of the specification: the
  readiness gate (the state permits the processing, or becomes the waiting state during
  the bounded wait), the decoding, the epoch, the existence of the shard, the bound on the
  leader's consensus index, the membership of the leader in the shard, the agreement of
  the state roots, and the verification of the co-signature.
\<close>

definition all_checks_succeed ::
  "('k, 'p, 'r, 'h, 's, 't, 'z) Externals \<Rightarrow> NodeState list \<Rightarrow> 8 word list \<Rightarrow> nat
     \<Rightarrow> ('k, 'p, 'r, 'h, 't, 'z) Node \<Rightarrow> bool" where
  "all_checks_succeed ext later message cur_offset st =
     ((CheckState ext st PROCESS_FALLBACKBLOCK
         \<or> wait_for (m_state st) later (\<lambda>s. s = WAITING_FALLBACKBLOCK))
      \<and> (case GetNodeFallbackBlock ext message cur_offset of
            None \<Rightarrow> False
          | Some fallbackblock \<Rightarrow>
              FallbackEpochNo (Header fallbackblock) = m_currentEpochNum st
              \<and> unat (ShardId (Header fallbackblock)) < length (m_shards st)
              \<and> unat (LeaderConsensusId (Header fallbackblock))
                    < length (m_shards st ! unat (ShardId (Header fallbackblock)))
              \<and> (LeaderPubKey (Header fallbackblock), LeaderNetworkInfo (Header fallbackblock))
                    \<in> set (map member_of (m_shards st ! unat (ShardId (Header fallbackblock))))
              \<and> StateRootHash (Header fallbackblock) = AccountStore_StateRootHash st
              \<and> (case VerifyFallbackBlockCoSignature ext fallbackblock st of
                    Inl e \<Rightarrow> False
                  | Inr (verified, ev) \<Rightarrow> verified)))"

text \<open>The condition variables a run waited on, and those it broadcast on, in order.\<close>

fun waited_on :: "'k Event list \<Rightarrow> string list" where
  "waited_on [] = []"
| "waited_on (WaitFor cv # ev) = cv # waited_on ev"
| "waited_on (e # ev) = waited_on ev"

fun broadcast_on :: "'k Event list \<Rightarrow> string list" where
  "broadcast_on [] = []"
| "broadcast_on (NotifyAll cv # ev) = cv # broadcast_on ev"
| "broadcast_on (e # ev) = broadcast_on ev"

subsection \<open>Concrete inputs\<close>

text \<open>
  Keys, peers, signatures and hashes are numbers. Shard 0 has the members A, B, C, D
  (keys 1 to 4); shard 1 has the members E and F (keys 5 and 6). The node is at epoch 5 with
  state root 77, and holds processed transactions for the epochs 4 and 5.
\<close>

definition shard_ABCD :: "(nat, nat, nat) ShardNode list" where
  "shard_ABCD = [(1, 11, 0), (2, 12, 0), (3, 13, 0), (4, 14, 0)]"

definition shard_EF :: "(nat, nat, nat) ShardNode list" where
  "shard_EF = [(5, 15, 0), (6, 16, 0)]"

definition node0 :: "(nat, nat, nat, nat, unit, nat) Node" where
  "node0 = \<lparr>m_shards = [shard_ABCD, shard_EF], m_DSCommittee = [(9, 19)],
            m_currentEpochNum = 5, m_consensusID = 7, m_consensusLeaderID = 2,
            m_processedTransactions = [4 \<mapsto> (), 5 \<mapsto> ()], m_state = WAITING_FALLBACKBLOCK,
            AccountStore_StateRootHash = 77, m_other = 3\<rparr>"

definition node_busy :: "(nat, nat, nat, nat, unit, nat) Node" where
  "node_busy = node0\<lparr>m_state := OtherNodeState 0\<rparr>"

text \<open>A block for epoch 5 that names the member B (key 2, index 1) as leader; the second
  signature is the sum of the keys 1, 2 and 3.\<close>

definition block0 :: "32 word \<Rightarrow> nat \<Rightarrow> bool list \<Rightarrow> (nat, nat, nat, nat) FallbackBlock" where
  "block0 shard root bitmap =
     \<lparr>Header = \<lparr>FallbackEpochNo = 5, ShardId = shard, LeaderConsensusId = 1,
                LeaderPubKey = 2, LeaderNetworkInfo = 12, StateRootHash = root\<rparr>,
      CS1 = 0, B1 = bitmap, CS2 = 6, B2 = bitmap\<rparr>"

text \<open>
  Collaborators for the concrete runs: a quorum of \<open>2 n div 3 + 1\<close>, keys aggregated by
  their sum, a signature that verifies when it equals the aggregated key, a decoder that
  knows three messages, a node that is ready when its state is the waiting state, and
  clean-up procedures that reset \<open>m_other\<close>.
\<close>

definition ext0 :: "(nat, nat, nat, nat, nat, unit, nat) Externals" where
  "ext0 =
     \<lparr>NumForConsensus = (\<lambda>n. 2 * n div 3 + 1),
      AggregatePubKeys = (\<lambda>keys. if keys = [] then None else Some (sum_list keys)),
      Header_Serialize = (\<lambda>header dst offset. dst),
      Signature_Serialize = (\<lambda>signature dst offset. dst),
      SetBitVector = (\<lambda>dst offset bits. dst),
      FallbackBlockHeader_SIZE = 0,
      BLOCK_SIG_SIZE = 0,
      Schnorr_Verify = (\<lambda>message offset size signature key. signature = key),
      GetNodeFallbackBlock =
        (\<lambda>message cur_offset.
           if message = [1] then Some (block0 0 77 [True, True, True, False])
           else if message = [2] then Some (block0 0 78 [True, True, True, False])
           else if message = [3] then Some (block0 0 77 [True, True, False, False])
           else None),
      CheckState =
        (\<lambda>st action. action = PROCESS_FALLBACKBLOCK \<and> m_state st = WAITING_FALLBACKBLOCK),
      LOOKUP_NODE_MODE = False,
      CleanCreatedTransaction = (\<lambda>st. st\<lparr>m_other := 0\<rparr>),
      CleanMicroblockConsensusBuffer = (\<lambda>st. st),
      AccountStore_InitTemp = (\<lambda>st. st),
      InitiatePoW = (\<lambda>st. st)\<rparr>"

text \<open>The state and the events of the accepted runs below.\<close>

definition committed :: "(nat, nat, nat, nat, unit, nat) Node \<Rightarrow> (nat, nat, nat, nat, unit, nat) Node" where
  "committed st = st\<lparr>m_DSCommittee := [(2, 12), (1, 11), (3, 13), (4, 14)],
                     m_processedTransactions := [4 \<mapsto> ()], m_other := 0\<rparr>"

definition accepted_events :: "nat Event list" where
  "accepted_events = [AggregatePubKeys_called [1, 2, 3], Schnorr_Verify_called 6,
                      NotifyAll ''cv_fallbackBlock'', Detached ''ScheduleFallbackTimeout'']"

lemmas concrete_defs = ext0_def block0_def node0_def node_busy_def shard_ABCD_def
  shard_EF_def committed_def accepted_events_def
  SHARD_NODE_PUBKEY_def SHARD_NODE_PEER_def member_of_def flagged_def

section \<open>Properties\<close>

subsection \<open>Reconstitution\<close>

lemma UpdateDSCommittee_loop_eq:
  "UpdateDSCommittee_loop shard k p committee =
     replicate (length (filter (\<lambda>m. m = (k, p)) (map member_of shard))) (k, p)
       @ committee @ filter (\<lambda>m. m \<noteq> (k, p)) (map member_of shard)"
proof (induction shard arbitrary: committee)
  case Nil
  show ?case by simp
next
  case (Cons n shard)
  show ?case
  proof (cases "member_of n = (k, p)")
    case True
    then have "SHARD_NODE_PUBKEY n = k \<and> SHARD_NODE_PEER n = p"
      by (simp add: member_of_def)
    with True show ?thesis
      by (simp add: Cons.IH replicate_app_Cons_same)
  next
    case False
    then have "\<not> (SHARD_NODE_PUBKEY n = k \<and> SHARD_NODE_PEER n = p)"
      by (simp add: member_of_def)
    with False show ?thesis
      by (simp add: Cons.IH member_of_def)
  qed
qed

lemma filter_eq_distinct_member:
  "distinct xs \<Longrightarrow> x \<in> set xs \<Longrightarrow> length (filter (\<lambda>m. m = x) xs) = 1"
proof (induction xs)
  case Nil
  then show ?case by simp
next
  case (Cons y ys)
  show ?case
  proof (cases "y = x")
    case True
    with Cons.prems have "x \<notin> set ys" by simp
    then have "filter (\<lambda>m. m = x) ys = []" by (auto simp: filter_empty_conv)
    with True show ?thesis by simp
  next
    case False
    with Cons show ?thesis by simp
  qed
qed

text \<open>
  C1. For a shard whose members have unique identities (the invariant of the shard
  directory) and a leader whose public key and network address are those of a member of
  it, the committee after \<open>UpdateDSCommittee\<close> is the leader followed by all other members
  of the shard in their original order.
\<close>

theorem UpdateDSCommittee_leader_first:
  assumes "unat shard_id < length (m_shards st)"
    and "distinct (map member_of (m_shards st ! unat shard_id))"
    and "(k, p) \<in> set (map member_of (m_shards st ! unat shard_id))"
  shows "UpdateDSCommittee shard_id k p st =
           Inr (st\<lparr>m_DSCommittee :=
                  (k, p) # filter (\<lambda>m. m \<noteq> (k, p))
                             (map member_of (m_shards st ! unat shard_id))\<rparr>)"
proof -
  from filter_eq_distinct_member [OF assms(2) assms(3)]
  have "length (filter (\<lambda>m. m = (k, p)) (map member_of (m_shards st ! unat shard_id))) = 1" .
  with assms(1) show ?thesis
    by (simp add: UpdateDSCommittee_def UpdateDSCommittee_loop_eq)
qed

theorem UpdateDSCommittee_leader_first_witness:
  "unat (0 :: 32 word) < length (m_shards node0)
   \<and> distinct (map member_of (m_shards node0 ! unat (0 :: 32 word)))
   \<and> (3, 13) \<in> set (map member_of (m_shards node0 ! unat (0 :: 32 word)))
   \<and> UpdateDSCommittee 0 3 13 node0
       = Inr (node0\<lparr>m_DSCommittee := [(3, 13), (1, 11), (2, 12), (4, 14)]\<rparr>)"
proof -
  have a: "unat (0 :: 32 word) < length (m_shards node0)"
    by (simp add: node0_def)
  have b: "distinct (map member_of (m_shards node0 ! unat (0 :: 32 word)))"
    by (simp add: node0_def shard_ABCD_def member_of_def SHARD_NODE_PUBKEY_def
        SHARD_NODE_PEER_def)
  have c: "(3, 13) \<in> set (map member_of (m_shards node0 ! unat (0 :: 32 word)))"
    by (simp add: node0_def shard_ABCD_def member_of_def SHARD_NODE_PUBKEY_def
        SHARD_NODE_PEER_def)
  have d: "filter (\<lambda>m. m \<noteq> (3, 13)) (map member_of (m_shards node0 ! unat (0 :: 32 word)))
             = [(1, 11), (2, 12), (4, 14)]"
    by (simp add: node0_def shard_ABCD_def member_of_def SHARD_NODE_PUBKEY_def
        SHARD_NODE_PEER_def)
  show ?thesis
    using UpdateDSCommittee_leader_first [OF a b c] a b c by (simp only: d simp_thms)
qed

text \<open>
  C7. Reconstitution is idempotent: \<open>UpdateDSCommittee\<close> applied to the state it returned,
  with the same shard and leader, returns that state again. (It reads the shard directory,
  which it does not write, and clears the committee first.)
\<close>

theorem UpdateDSCommittee_idempotent:
  assumes "UpdateDSCommittee shard_id k p st = Inr st'"
  shows "UpdateDSCommittee shard_id k p st' = Inr st'"
  using assms by (auto simp: UpdateDSCommittee_def split: if_splits)

theorem UpdateDSCommittee_idempotent_witness:
  "UpdateDSCommittee 0 3 13 node0
     = Inr (node0\<lparr>m_DSCommittee := [(3, 13), (1, 11), (2, 12), (4, 14)]\<rparr>)
   \<and> UpdateDSCommittee 0 3 13 (node0\<lparr>m_DSCommittee := [(3, 13), (1, 11), (2, 12), (4, 14)]\<rparr>)
     = Inr (node0\<lparr>m_DSCommittee := [(3, 13), (1, 11), (2, 12), (4, 14)]\<rparr>)"
proof -
  have a: "UpdateDSCommittee 0 3 13 node0
     = Inr (node0\<lparr>m_DSCommittee := [(3, 13), (1, 11), (2, 12), (4, 14)]\<rparr>)"
    by (simp add: UpdateDSCommittee_def node0_def shard_ABCD_def
        SHARD_NODE_PUBKEY_def SHARD_NODE_PEER_def)
  show ?thesis
    using UpdateDSCommittee_idempotent [OF a] a by simp
qed

subsection \<open>Co-signature verification\<close>

lemma VerifyFallbackBlockCoSignature_loop_eq:
  "index + length shard \<le> length B2v \<Longrightarrow>
   VerifyFallbackBlockCoSignature_loop shard B2v index count keys =
     Inr (count + flagged (take (length shard) (drop index B2v)),
          keys @ flagged_keys shard (drop index B2v))"
proof (induction shard arbitrary: index count keys)
  case Nil
  show ?case by (simp add: flagged_def flagged_keys_def)
next
  case (Cons n shard)
  then have lt: "index < length B2v" and le: "Suc index + length shard \<le> length B2v"
    by simp_all
  from lt have d: "drop index B2v = B2v ! index # drop (Suc index) B2v"
    by (simp add: Cons_nth_drop_Suc)
  show ?case
    using lt by (simp add: Cons.IH [OF le] d flagged_def flagged_keys_def)
qed

lemma VerifyFallbackBlockCoSignature_loop_whole:
  "length shard = length B2v \<Longrightarrow>
   VerifyFallbackBlockCoSignature_loop shard B2v 0 0 [] =
     Inr (flagged B2v, flagged_keys shard B2v)"
  by (simp add: VerifyFallbackBlockCoSignature_loop_eq)

lemma Verify_defined:
  "unat (ShardId (Header fallbackblock)) < length (m_shards st)
     \<Longrightarrow> \<exists>verified ev. VerifyFallbackBlockCoSignature ext fallbackblock st = Inr (verified, ev)"
  by (auto simp: VerifyFallbackBlockCoSignature_def Let_def
      VerifyFallbackBlockCoSignature_loop_whole split: if_splits option.splits)

lemma Verify_events:
  "VerifyFallbackBlockCoSignature ext fallbackblock st = Inr (verified, ev)
     \<Longrightarrow> waited_on ev = [] \<and> broadcast_on ev = []"
  by (auto simp: VerifyFallbackBlockCoSignature_def Let_def
      split: if_splits sum.splits option.splits)

lemma Verify_accepts_block0:
  "VerifyFallbackBlockCoSignature ext0 (block0 0 77 [True, True, True, False]) node0
     = Inr (True, [AggregatePubKeys_called [1, 2, 3], Schnorr_Verify_called 6])"
  by (simp add: VerifyFallbackBlockCoSignature_def Let_def concrete_defs)

text \<open>
  C2. When the shard named by the block has \<open>n\<close> members and \<open>B2\<close> flags fewer than
  \<open>NumForConsensus n\<close> signers, the verification returns false, whatever the cryptographic
  primitives would answer: they are not called.
\<close>

theorem Verify_rejects_sub_quorum:
  assumes "unat (ShardId (Header fallbackblock)) < length (m_shards st)"
    and "length (m_shards st ! unat (ShardId (Header fallbackblock))) = n"
    and "flagged (B2 fallbackblock) < NumForConsensus ext n"
  shows "VerifyFallbackBlockCoSignature ext fallbackblock st = Inr (False, [])"
  using assms
  by (auto simp: VerifyFallbackBlockCoSignature_def Let_def
      VerifyFallbackBlockCoSignature_loop_whole)

theorem Verify_rejects_sub_quorum_witness:
  "unat (ShardId (Header (block0 0 77 [True, True, False, False]))) < length (m_shards node0)
   \<and> length (m_shards node0 ! unat (ShardId (Header (block0 0 77 [True, True, False, False]))))
       = 4
   \<and> flagged (B2 (block0 0 77 [True, True, False, False])) < NumForConsensus ext0 4
   \<and> VerifyFallbackBlockCoSignature ext0 (block0 0 77 [True, True, False, False]) node0
       = Inr (False, [])"
proof -
  have a: "unat (ShardId (Header (block0 0 77 [True, True, False, False])))
             < length (m_shards node0)"
    by (simp add: concrete_defs)
  have b: "length (m_shards node0
             ! unat (ShardId (Header (block0 0 77 [True, True, False, False])))) = 4"
    by (simp add: concrete_defs)
  have c: "flagged (B2 (block0 0 77 [True, True, False, False])) < NumForConsensus ext0 4"
    by (simp add: concrete_defs)
  from Verify_rejects_sub_quorum [OF a b c] a b c show ?thesis by blast
qed

text \<open>
  C4. When the length of \<open>B2\<close> differs from the number of members of the shard named by the
  block, the verification returns false, and no key has been aggregated: the run has no
  event.
\<close>

theorem Verify_rejects_bitmap_size_mismatch:
  assumes "unat (ShardId (Header fallbackblock)) < length (m_shards st)"
    and "length (B2 fallbackblock)
           \<noteq> length (m_shards st ! unat (ShardId (Header fallbackblock)))"
  shows "VerifyFallbackBlockCoSignature ext fallbackblock st = Inr (False, [])"
  using assms by (auto simp: VerifyFallbackBlockCoSignature_def Let_def)

theorem Verify_rejects_bitmap_size_mismatch_witness:
  "unat (ShardId (Header (block0 0 77 [True, True, True]))) < length (m_shards node0)
   \<and> length (B2 (block0 0 77 [True, True, True]))
       \<noteq> length (m_shards node0 ! unat (ShardId (Header (block0 0 77 [True, True, True]))))
   \<and> VerifyFallbackBlockCoSignature ext0 (block0 0 77 [True, True, True]) node0
       = Inr (False, [])"
proof -
  have a: "unat (ShardId (Header (block0 0 77 [True, True, True]))) < length (m_shards node0)"
    by (simp add: concrete_defs)
  have b: "length (B2 (block0 0 77 [True, True, True]))
       \<noteq> length (m_shards node0 ! unat (ShardId (Header (block0 0 77 [True, True, True]))))"
    by (simp add: concrete_defs)
  from Verify_rejects_bitmap_size_mismatch [OF a b] a b show ?thesis by blast
qed

text \<open>
  C9. The verification accepts only a signer count equal to \<open>NumForConsensus\<close> of the size
  of the bitmap: whenever it returns true the number of flagged signers is exactly that
  value, and a block of an existing shard whose bitmap flags more signers is rejected
  before any key is aggregated.
\<close>

theorem Verify_accepts_exact_quorum_only:
  "(\<forall>ev. VerifyFallbackBlockCoSignature ext fallbackblock st = Inr (True, ev)
       \<longrightarrow> flagged (B2 fallbackblock) = NumForConsensus ext (length (B2 fallbackblock)))
   \<and> (unat (ShardId (Header fallbackblock)) < length (m_shards st)
        \<longrightarrow> NumForConsensus ext (length (B2 fallbackblock)) < flagged (B2 fallbackblock)
        \<longrightarrow> VerifyFallbackBlockCoSignature ext fallbackblock st = Inr (False, []))"
  by (auto simp: VerifyFallbackBlockCoSignature_def Let_def
      VerifyFallbackBlockCoSignature_loop_whole split: if_splits option.splits)

theorem Verify_accepts_exact_quorum_only_witness:
  "VerifyFallbackBlockCoSignature ext0 (block0 0 77 [True, True, True, False]) node0
     = Inr (True, [AggregatePubKeys_called [1, 2, 3], Schnorr_Verify_called 6])
   \<and> flagged (B2 (block0 0 77 [True, True, True, False]))
       = NumForConsensus ext0 (length (B2 (block0 0 77 [True, True, True, False])))
   \<and> unat (ShardId (Header (block0 0 77 [True, True, True, True]))) < length (m_shards node0)
   \<and> NumForConsensus ext0 (length (B2 (block0 0 77 [True, True, True, True])))
       < flagged (B2 (block0 0 77 [True, True, True, True]))
   \<and> VerifyFallbackBlockCoSignature ext0 (block0 0 77 [True, True, True, True]) node0
       = Inr (False, [])"
proof -
  note th1 = Verify_accepts_exact_quorum_only
    [of ext0 "block0 0 77 [True, True, True, False]" node0]
  note th2 = Verify_accepts_exact_quorum_only
    [of ext0 "block0 0 77 [True, True, True, True]" node0]
  have a: "unat (ShardId (Header (block0 0 77 [True, True, True, True])))
             < length (m_shards node0)"
    by (simp add: concrete_defs)
  have b: "NumForConsensus ext0 (length (B2 (block0 0 77 [True, True, True, True])))
       < flagged (B2 (block0 0 77 [True, True, True, True]))"
    by (simp add: concrete_defs)
  from th1 th2 Verify_accepts_block0 a b show ?thesis by blast
qed

subsection \<open>The handler\<close>

lemma wait_for_iff: "wait_for s later pred \<longleftrightarrow> pred s \<or> (\<exists>x \<in> set later. pred x)"
  by (induction later arbitrary: s) auto

lemma find_leader_None_iff:
  "find (\<lambda>item. k = SHARD_NODE_PUBKEY item \<and> p = SHARD_NODE_PEER item) shard = None
     \<longleftrightarrow> (k, p) \<notin> set (map member_of shard)"
  by (auto simp: find_None_iff member_of_def)

lemma waited_on_append: "waited_on (a @ b) = waited_on a @ waited_on b"
  by (induction a rule: waited_on.induct) auto

lemma broadcast_on_append: "broadcast_on (a @ b) = broadcast_on a @ broadcast_on b"
  by (induction a rule: broadcast_on.induct) auto

lemma ProcessFallbackBlock_reject:
  assumes "\<not> all_checks_succeed ext later message cur_offset st"
  shows "\<exists>ev. ProcessFallbackBlock ext later message cur_offset st = Inr (False, st, ev)
              \<and> broadcast_on ev = []"
proof (cases "CheckState ext st PROCESS_FALLBACKBLOCK
         \<or> wait_for (m_state st) later (\<lambda>s. s = WAITING_FALLBACKBLOCK)")
  case False
  then show ?thesis by (simp add: ProcessFallbackBlock_def)
next
  case gate: True
  show ?thesis
  proof (cases "GetNodeFallbackBlock ext message cur_offset")
    case None
    with gate show ?thesis by (auto simp: ProcessFallbackBlock_def)
  next
    case (Some fb)
    show ?thesis
    proof (cases "unat (ShardId (Header fb)) < length (m_shards st)")
      case False
      with gate Some show ?thesis by (auto simp: ProcessFallbackBlock_def Let_def)
    next
      case True
      from Verify_defined [OF True] obtain verified ev1
        where v: "VerifyFallbackBlockCoSignature ext fb st = Inr (verified, ev1)" by blast
      from Verify_events [OF v] have e: "broadcast_on ev1 = []" by simp
      from assms gate Some True v e show ?thesis
        by (auto simp: ProcessFallbackBlock_def Let_def all_checks_succeed_def
            find_leader_None_iff)
    qed
  qed
qed

lemma ProcessFallbackBlock_accept:
  assumes "all_checks_succeed ext later message cur_offset st"
  shows "\<exists>st' ev. ProcessFallbackBlock ext later message cur_offset st = Inr (True, st', ev)"
proof -
  from assms obtain fb where
    d: "GetNodeFallbackBlock ext message cur_offset = Some fb"
    by (auto simp: all_checks_succeed_def split: option.splits)
  from assms d obtain ev1 where
    v: "VerifyFallbackBlockCoSignature ext fb st = Inr (True, ev1)"
    by (auto simp: all_checks_succeed_def split: sum.splits)
  from assms d v show ?thesis
    by (auto simp: ProcessFallbackBlock_def Let_def all_checks_succeed_def
        find_leader_None_iff UpdateDSCommittee_def)
qed

lemma ProcessFallbackBlock_defined:
  "\<exists>accepted st' ev.
     ProcessFallbackBlock ext later message cur_offset st = Inr (accepted, st', ev)"
  using ProcessFallbackBlock_reject [of ext later message cur_offset st]
    ProcessFallbackBlock_accept [of ext later message cur_offset st]
  by blast

lemma run_accepted:
  "ProcessFallbackBlock ext0 [] [1] 0 node0 = Inr (True, committed node0, accepted_events)"
  by (simp add: ProcessFallbackBlock_def VerifyFallbackBlockCoSignature_def
      UpdateDSCommittee_def Let_def concrete_defs)

lemma run_waited_accepted:
  "ProcessFallbackBlock ext0 [OtherNodeState 1, WAITING_FALLBACKBLOCK] [1] 0 node_busy
     = Inr (True, committed node_busy, WaitFor ''cv_fallbackBlock'' # accepted_events)"
  by (simp add: ProcessFallbackBlock_def VerifyFallbackBlockCoSignature_def
      UpdateDSCommittee_def Let_def concrete_defs)

lemma checks_fail_sub_quorum: "\<not> all_checks_succeed ext0 [] [3] 0 node0"
  by (simp add: all_checks_succeed_def VerifyFallbackBlockCoSignature_def Let_def
      concrete_defs)

lemma run_rejected_sub_quorum:
  "ProcessFallbackBlock ext0 [] [3] 0 node0 = Inr (False, node0, [])"
  by (simp add: ProcessFallbackBlock_def VerifyFallbackBlockCoSignature_def Let_def
      concrete_defs)

text \<open>
  C3. The handler returns true only when the checks of steps 1 to 8 all succeed (the
  commit of step 9 cannot fail); when one of them fails, it returns false, the state of
  the node is the one it started from, and nothing has been broadcast.
\<close>

theorem ProcessFallbackBlock_true_only_after_all_checks:
  "(\<forall>st' ev. ProcessFallbackBlock ext later message cur_offset st = Inr (True, st', ev)
       \<longrightarrow> all_checks_succeed ext later message cur_offset st)
   \<and> (\<not> all_checks_succeed ext later message cur_offset st
       \<longrightarrow> (\<exists>ev. ProcessFallbackBlock ext later message cur_offset st = Inr (False, st, ev)
                  \<and> broadcast_on ev = []))"
proof (intro conjI allI impI)
  fix st' ev
  assume t: "ProcessFallbackBlock ext later message cur_offset st = Inr (True, st', ev)"
  show "all_checks_succeed ext later message cur_offset st"
  proof (rule ccontr)
    assume "\<not> all_checks_succeed ext later message cur_offset st"
    from ProcessFallbackBlock_reject [OF this] t show False by auto
  qed
next
  assume "\<not> all_checks_succeed ext later message cur_offset st"
  then show "\<exists>ev. ProcessFallbackBlock ext later message cur_offset st = Inr (False, st, ev)
                  \<and> broadcast_on ev = []"
    by (rule ProcessFallbackBlock_reject)
qed

theorem ProcessFallbackBlock_true_only_after_all_checks_witness:
  "ProcessFallbackBlock ext0 [] [1] 0 node0 = Inr (True, committed node0, accepted_events)
   \<and> all_checks_succeed ext0 [] [1] 0 node0
   \<and> \<not> all_checks_succeed ext0 [] [3] 0 node0
   \<and> (\<exists>ev. ProcessFallbackBlock ext0 [] [3] 0 node0 = Inr (False, node0, ev)
            \<and> broadcast_on ev = [])"
proof -
  note th1 = ProcessFallbackBlock_true_only_after_all_checks [of ext0 "[]" "[1]" 0 node0]
  note th2 = ProcessFallbackBlock_true_only_after_all_checks [of ext0 "[]" "[3]" 0 node0]
  from th1 run_accepted have a: "all_checks_succeed ext0 [] [1] 0 node0" by blast
  from th2 checks_fail_sub_quorum
  have b: "\<exists>ev. ProcessFallbackBlock ext0 [] [3] 0 node0 = Inr (False, node0, ev)
            \<and> broadcast_on ev = []" by blast
  from a b run_accepted checks_fail_sub_quorum show ?thesis by blast
qed

text \<open>
  C5. When the state root in the header of the decoded block differs from the state root
  of the node's account store, the handler returns false and leaves the state of the node
  as it was, whatever the co-signature and the other fields are.
\<close>

theorem ProcessFallbackBlock_rejects_state_root_mismatch:
  assumes "GetNodeFallbackBlock ext message cur_offset = Some fallbackblock"
    and "StateRootHash (Header fallbackblock) \<noteq> AccountStore_StateRootHash st"
  shows "\<exists>ev. ProcessFallbackBlock ext later message cur_offset st = Inr (False, st, ev)"
proof -
  from assms have "\<not> all_checks_succeed ext later message cur_offset st"
    by (simp add: all_checks_succeed_def)
  from ProcessFallbackBlock_reject [OF this] show ?thesis by blast
qed

theorem ProcessFallbackBlock_rejects_state_root_mismatch_witness:
  "GetNodeFallbackBlock ext0 [2] 0 = Some (block0 0 78 [True, True, True, False])
   \<and> StateRootHash (Header (block0 0 78 [True, True, True, False]))
       \<noteq> AccountStore_StateRootHash node0
   \<and> VerifyFallbackBlockCoSignature ext0 (block0 0 78 [True, True, True, False]) node0
       = Inr (True, [AggregatePubKeys_called [1, 2, 3], Schnorr_Verify_called 6])
   \<and> (\<exists>ev. ProcessFallbackBlock ext0 [] [2] 0 node0 = Inr (False, node0, ev))"
proof -
  have a: "GetNodeFallbackBlock ext0 [2] 0 = Some (block0 0 78 [True, True, True, False])"
    by (simp add: concrete_defs)
  have b: "StateRootHash (Header (block0 0 78 [True, True, True, False]))
       \<noteq> AccountStore_StateRootHash node0"
    by (simp add: concrete_defs)
  have c: "VerifyFallbackBlockCoSignature ext0 (block0 0 78 [True, True, True, False]) node0
       = Inr (True, [AggregatePubKeys_called [1, 2, 3], Schnorr_Verify_called 6])"
    by (simp add: VerifyFallbackBlockCoSignature_def Let_def concrete_defs)
  from ProcessFallbackBlock_rejects_state_root_mismatch [OF a b, of "[]"] a b c
  show ?thesis by blast
qed

text \<open>
  C6. When \<open>CheckState\<close> refuses the processing and \<open>m_state\<close> is not the waiting state at
  any evaluation of the wait predicate up to the expiry of the grace period, the handler
  returns false after the wait, and the state of the node (the committee included) is the
  one it started from.
\<close>

theorem ProcessFallbackBlock_readiness_timeout:
  assumes "\<not> CheckState ext st PROCESS_FALLBACKBLOCK"
    and "m_state st \<noteq> WAITING_FALLBACKBLOCK"
    and "WAITING_FALLBACKBLOCK \<notin> set later"
  shows "ProcessFallbackBlock ext later message cur_offset st
           = Inr (False, st, [WaitFor ''cv_fallbackBlock''])"
  using assms by (auto simp: ProcessFallbackBlock_def wait_for_iff)

theorem ProcessFallbackBlock_readiness_timeout_witness:
  "\<not> CheckState ext0 node_busy PROCESS_FALLBACKBLOCK
   \<and> m_state node_busy \<noteq> WAITING_FALLBACKBLOCK
   \<and> WAITING_FALLBACKBLOCK \<notin> set [OtherNodeState 1, OtherNodeState 0]
   \<and> ProcessFallbackBlock ext0 [OtherNodeState 1, OtherNodeState 0] [1] 0 node_busy
       = Inr (False, node_busy, [WaitFor ''cv_fallbackBlock''])"
proof -
  have a: "\<not> CheckState ext0 node_busy PROCESS_FALLBACKBLOCK"
    by (simp add: concrete_defs)
  have b: "m_state node_busy \<noteq> WAITING_FALLBACKBLOCK"
    by (simp add: concrete_defs)
  have c: "WAITING_FALLBACKBLOCK \<notin> set [OtherNodeState 1, OtherNodeState 0]"
    by simp
  from ProcessFallbackBlock_readiness_timeout [OF a b c, of "[1]" 0] a b c
  show ?thesis by blast
qed

text \<open>
  C8 (as amended). The condition variable broadcast at the commit is the one the
  readiness gate waits on: in every run of the handler, the gate waits on
  \<open>cv_fallbackBlock\<close> exactly when \<open>CheckState\<close> refuses the processing, and
  \<open>cv_fallbackBlock\<close> is broadcast exactly when the block is accepted; no other condition
  variable is waited on or broadcast.
\<close>

theorem ProcessFallbackBlock_one_condition_variable:
  assumes "ProcessFallbackBlock ext later message cur_offset st = Inr (accepted, st', ev)"
  shows "waited_on ev = (if CheckState ext st PROCESS_FALLBACKBLOCK then []
                         else [''cv_fallbackBlock''])
         \<and> broadcast_on ev = (if accepted then [''cv_fallbackBlock''] else [])"
  using assms
  by (auto simp: ProcessFallbackBlock_def Let_def waited_on_append broadcast_on_append
      dest!: Verify_events split: if_splits option.splits sum.splits)

theorem ProcessFallbackBlock_one_condition_variable_witness:
  "ProcessFallbackBlock ext0 [] [1] 0 node0 = Inr (True, committed node0, accepted_events)
   \<and> waited_on accepted_events = []
   \<and> broadcast_on accepted_events = [''cv_fallbackBlock'']"
proof -
  have c: "CheckState ext0 node0 PROCESS_FALLBACKBLOCK"
    by (simp add: concrete_defs)
  from ProcessFallbackBlock_one_condition_variable [OF run_accepted] c run_accepted
  show ?thesis by simp
qed

text \<open>
  C8 (as stated) fails: in the run below the node is not ready, the gate waits, the state
  becomes the waiting state, and the block is accepted. The condition variable waited on
  and the one broadcast are the same, \<open>cv_fallbackBlock\<close>.
\<close>

theorem ProcessFallbackBlock_same_condition_variable_counterexample:
  "ProcessFallbackBlock ext0 [OtherNodeState 1, WAITING_FALLBACKBLOCK] [1] 0 node_busy
     = Inr (True, committed node_busy, WaitFor ''cv_fallbackBlock'' # accepted_events)
   \<and> waited_on (WaitFor ''cv_fallbackBlock'' # accepted_events) = [''cv_fallbackBlock'']
   \<and> broadcast_on (WaitFor ''cv_fallbackBlock'' # accepted_events) = [''cv_fallbackBlock'']"
proof -
  have w: "waited_on (WaitFor ''cv_fallbackBlock'' # accepted_events) = [''cv_fallbackBlock'']"
    by (simp add: accepted_events_def)
  have b: "broadcast_on (WaitFor ''cv_fallbackBlock'' # accepted_events)
             = [''cv_fallbackBlock'']"
    by (simp add: accepted_events_def)
  from run_waited_accepted w b show ?thesis by blast
qed

text \<open>
  C10. The verifier indexes the shard directory with the shard id of the block without a
  check: it returns a result exactly when the shard id names an existing shard, and is
  undefined otherwise (the bitmap is never read out of range). The handler checks the
  shard id before it calls the verifier, so no run of the handler is undefined.
\<close>

theorem Verify_defined_iff_shard_exists:
  "((\<exists>r. VerifyFallbackBlockCoSignature ext fallbackblock st = Inr r)
      \<longleftrightarrow> unat (ShardId (Header fallbackblock)) < length (m_shards st))
   \<and> (\<not> unat (ShardId (Header fallbackblock)) < length (m_shards st)
        \<longrightarrow> VerifyFallbackBlockCoSignature ext fallbackblock st = Inl UndefinedBehaviour)
   \<and> (\<forall>e. ProcessFallbackBlock ext later message cur_offset st \<noteq> Inl e)"
proof (intro conjI)
  show "(\<exists>r. VerifyFallbackBlockCoSignature ext fallbackblock st = Inr r)
      \<longleftrightarrow> unat (ShardId (Header fallbackblock)) < length (m_shards st)"
    using Verify_defined [of fallbackblock st ext]
    by (auto simp: VerifyFallbackBlockCoSignature_def Let_def)
  show "\<not> unat (ShardId (Header fallbackblock)) < length (m_shards st)
        \<longrightarrow> VerifyFallbackBlockCoSignature ext fallbackblock st = Inl UndefinedBehaviour"
    by (simp add: VerifyFallbackBlockCoSignature_def Let_def)
  show "\<forall>e. ProcessFallbackBlock ext later message cur_offset st \<noteq> Inl e"
    using ProcessFallbackBlock_defined [of ext later message cur_offset st] by auto
qed

theorem Verify_defined_iff_shard_exists_witness:
  "\<not> unat (ShardId (Header (block0 2 77 [True, True, True, False]))) < length (m_shards node0)
   \<and> VerifyFallbackBlockCoSignature ext0 (block0 2 77 [True, True, True, False]) node0
       = Inl UndefinedBehaviour"
proof -
  have a: "\<not> unat (ShardId (Header (block0 2 77 [True, True, True, False])))
              < length (m_shards node0)"
    by (simp add: concrete_defs)
  from Verify_defined_iff_shard_exists
         [of ext0 "block0 2 77 [True, True, True, False]" node0 "[]" "[]" 0] a
  show ?thesis by blast
qed

end
